theory Spec2Isabelle
  imports Main "HOL-Library.Word"
begin

unbundle bit_operations_syntax

section \<open>JavaScript strings and buffers\<close>

text \<open>
  A JavaScript string is a sequence of UTF-16 code units, a Node \<open>Buffer\<close> a sequence of
  bytes. String literals of \<open>server.js\<close> are ASCII; \<open>str\<close> writes them as code units.
\<close>

type_synonym jsstring = "16 word list"
type_synonym buffer = "8 word list"

definition str :: "string \<Rightarrow> jsstring" where
  "str s = map (\<lambda>c. of_nat (of_char c)) s"

text \<open>
  \<open>String.prototype.trim\<close> removes leading and trailing WhiteSpace and LineTerminator
  code points (ECMAScript): TAB, LF, VT, FF, CR, SP, NBSP, U+1680, U+2000..U+200A, U+2028,
  U+2029, U+202F, U+205F, U+3000 and U+FEFF.
\<close>

definition is_space :: "16 word \<Rightarrow> bool" where
  "is_space c = (c \<in> set [0x9, 0xA, 0xB, 0xC, 0xD, 0x20, 0xA0, 0x1680,
                           0x2028, 0x2029, 0x202F, 0x205F, 0x3000, 0xFEFF]
                 \<or> (0x2000 \<le> c \<and> c \<le> 0x200A))"

definition trim :: "jsstring \<Rightarrow> jsstring" where
  "trim s = rev (dropWhile is_space (rev (dropWhile is_space s)))"

text \<open>
  The operators of \<open>server.js\<close> on a value that is a string or \<open>undefined\<close>
  (\<open>None\<close>): \<open>a ?? b\<close> takes \<open>b\<close> when \<open>a\<close> is undefined, \<open>a || b\<close> takes \<open>b\<close> when
  \<open>a\<close> is falsy, that is undefined or the empty string.
\<close>

definition truthy :: "jsstring option \<Rightarrow> bool" where
  "truthy a = (case a of None \<Rightarrow> False | Some s \<Rightarrow> s \<noteq> [])"

definition nullish_or :: "jsstring option \<Rightarrow> jsstring \<Rightarrow> jsstring" where
  "nullish_or a b = (case a of None \<Rightarrow> b | Some s \<Rightarrow> s)"

definition or_else :: "jsstring option \<Rightarrow> jsstring \<Rightarrow> jsstring" where
  "or_else a b = (case a of None \<Rightarrow> b | Some s \<Rightarrow> if s = [] then b else s)"

subsection \<open>UTF-8\<close>

text \<open>
  \<open>Buffer.from(s, 'utf8')\<close> encodes the code points of \<open>s\<close>; a surrogate pair is one code
  point, a lone surrogate is encoded as U+FFFD (bytes EF BF BD).
\<close>

definition is_high :: "16 word \<Rightarrow> bool" where
  "is_high c = (0xD800 \<le> c \<and> c \<le> 0xDBFF)"

definition is_low :: "16 word \<Rightarrow> bool" where
  "is_low c = (0xDC00 \<le> c \<and> c \<le> 0xDFFF)"

definition pair_cp :: "16 word \<Rightarrow> 16 word \<Rightarrow> nat" where
  "pair_cp h l = 0x10000 + (unat h - 0xD800) * 0x400 + (unat l - 0xDC00)"

definition encode_cp :: "nat \<Rightarrow> buffer" where
  "encode_cp cp =
     (if cp < 0x80 then [of_nat cp]
      else if cp < 0x800 then [of_nat (0xC0 + cp div 0x40), of_nat (0x80 + cp mod 0x40)]
      else if cp < 0x10000 then
        [of_nat (0xE0 + cp div 0x1000), of_nat (0x80 + cp div 0x40 mod 0x40),
         of_nat (0x80 + cp mod 0x40)]
      else
        [of_nat (0xF0 + cp div 0x40000), of_nat (0x80 + cp div 0x1000 mod 0x40),
         of_nat (0x80 + cp div 0x40 mod 0x40), of_nat (0x80 + cp mod 0x40)])"

definition replacement_bytes :: buffer where
  "replacement_bytes = [0xEF, 0xBF, 0xBD]"

fun utf8_encode :: "jsstring \<Rightarrow> buffer" where
  "utf8_encode [] = []"
| "utf8_encode (c # cs) =
     (if is_high c then
        (case cs of
           [] \<Rightarrow> replacement_bytes
         | d # ds \<Rightarrow>
             if is_low d then encode_cp (pair_cp c d) @ utf8_encode ds
             else replacement_bytes @ utf8_encode cs)
      else if is_low c then replacement_bytes @ utf8_encode cs
      else encode_cp (unat c) @ utf8_encode cs)"

text \<open>
  \<open>String.prototype.isWellFormed\<close>: no lone surrogate. These are the strings that UTF-8
  represents; encoding replaces every lone surrogate.
\<close>

fun isWellFormed :: "jsstring \<Rightarrow> bool" where
  "isWellFormed [] = True"
| "isWellFormed (c # cs) =
     (if is_high c then (case cs of [] \<Rightarrow> False | d # ds \<Rightarrow> is_low d \<and> isWellFormed ds)
      else \<not> is_low c \<and> isWellFormed cs)"

text \<open>
  \<open>buf.toString('utf8')\<close> decodes UTF-8; every maximal ill-formed part becomes one
  U+FFFD and decoding resumes at the byte that ended it. The lead byte fixes the range of
  the second byte (E0: A0..BF, ED: 80..9F, F0: 90..BF, F4: 80..8F, otherwise 80..BF).
\<close>

definition cont :: "8 word \<Rightarrow> bool" where
  "cont b = (0x80 \<le> b \<and> b \<le> 0xBF)"

definition second_ok :: "8 word \<Rightarrow> 8 word \<Rightarrow> bool" where
  "second_ok b0 b1 =
     ((if b0 = 0xE0 then 0xA0 else if b0 = 0xF0 then 0x90 else 0x80) \<le> b1 \<and>
      b1 \<le> (if b0 = 0xED then 0x9F else if b0 = 0xF4 then 0x8F else 0xBF))"

definition units_of_cp :: "nat \<Rightarrow> jsstring" where
  "units_of_cp cp =
     (if cp < 0x10000 then [of_nat cp]
      else [of_nat (0xD800 + (cp - 0x10000) div 0x400),
            of_nat (0xDC00 + (cp - 0x10000) mod 0x400)])"

definition low6 :: "8 word \<Rightarrow> nat" where
  "low6 b = unat b mod 0x40"

fun utf8_decode :: "buffer \<Rightarrow> jsstring" where
  "utf8_decode [] = []"
| "utf8_decode (b0 # bs) =
     (if b0 < 0x80 then units_of_cp (unat b0) @ utf8_decode bs
      else if 0xC2 \<le> b0 \<and> b0 \<le> 0xDF then
        (case bs of
           [] \<Rightarrow> [0xFFFD]
         | b1 # r1 \<Rightarrow>
             if cont b1 then units_of_cp (unat b0 mod 0x20 * 0x40 + low6 b1) @ utf8_decode r1
             else 0xFFFD # utf8_decode bs)
      else if 0xE0 \<le> b0 \<and> b0 \<le> 0xEF then
        (case bs of
           [] \<Rightarrow> [0xFFFD]
         | b1 # r1 \<Rightarrow>
             if second_ok b0 b1 then
               (case r1 of
                  [] \<Rightarrow> [0xFFFD]
                | b2 # r2 \<Rightarrow>
                    if cont b2 then
                      units_of_cp (unat b0 mod 0x10 * 0x1000 + low6 b1 * 0x40 + low6 b2)
                        @ utf8_decode r2
                    else 0xFFFD # utf8_decode r1)
             else 0xFFFD # utf8_decode bs)
      else if 0xF0 \<le> b0 \<and> b0 \<le> 0xF4 then
        (case bs of
           [] \<Rightarrow> [0xFFFD]
         | b1 # r1 \<Rightarrow>
             if second_ok b0 b1 then
               (case r1 of
                  [] \<Rightarrow> [0xFFFD]
                | b2 # r2 \<Rightarrow>
                    if cont b2 then
                      (case r2 of
                         [] \<Rightarrow> [0xFFFD]
                       | b3 # r3 \<Rightarrow>
                           if cont b3 then
                             units_of_cp (unat b0 mod 0x8 * 0x40000 + low6 b1 * 0x1000
                                            + low6 b2 * 0x40 + low6 b3)
                               @ utf8_decode r3
                           else 0xFFFD # utf8_decode r2)
                    else 0xFFFD # utf8_decode r1)
             else 0xFFFD # utf8_decode bs)
      else 0xFFFD # utf8_decode bs)"

text \<open>\<open>buf.toString('hex')\<close>: two lower-case hexadecimal digits for each byte.\<close>

definition hex_digit :: "nat \<Rightarrow> 16 word" where
  "hex_digit n = (if n < 10 then of_nat (0x30 + n) else of_nat (0x57 + n))"

definition hex :: "buffer \<Rightarrow> jsstring" where
  "hex bs = concat (map (\<lambda>b. [hex_digit (unat b div 16), hex_digit (unat b mod 16)]) bs)"

section \<open>The record store\<close>

text \<open>
  \<open>db.json\<close> holds one object: the keys are slugs, the values the records written by the
  create handler. \<open>readDB\<close> parses the whole document, \<open>writeDB\<close> replaces it.
\<close>

record paste =
  filename :: jsstring
  language :: jsstring
  megaLink :: jsstring
  createdAt :: jsstring

type_synonym db = "jsstring \<rightharpoonup> paste"

definition readDB :: "db \<Rightarrow> db" where
  "readDB file = file"

definition writeDB :: "db \<Rightarrow> db \<Rightarrow> db" where
  "writeDB db file = db"

text \<open>
  \<open>db[slug]\<close> is a JavaScript property read on the object that \<open>JSON.parse\<close> built: an
  own key gives its record, any other key is looked up in \<open>Object.prototype\<close>, whose
  members are functions (and, for \<open>__proto__\<close>, the prototype object itself), and a key
  found in neither gives \<open>undefined\<close> (\<open>None\<close>).
\<close>

definition object_prototype_keys :: "jsstring list" where
  "object_prototype_keys =
     map str [''constructor'', ''__defineGetter__'', ''__defineSetter__'', ''hasOwnProperty'',
              ''__lookupGetter__'', ''__lookupSetter__'', ''isPrototypeOf'',
              ''propertyIsEnumerable'', ''toString'', ''valueOf'', ''__proto__'',
              ''toLocaleString'']"

datatype property = Own paste | Inherited

definition lookup :: "db \<Rightarrow> jsstring \<Rightarrow> property option" where
  "lookup db slug =
     (case db slug of
        Some r \<Rightarrow> Some (Own r)
      | None \<Rightarrow> if slug \<in> set object_prototype_keys then Some Inherited else None)"

text \<open>
  \<open>record.megaLink\<close>, \<open>record.filename\<close> and \<open>record.language\<close>: a member of
  \<open>Object.prototype\<close> has none of these properties, the read gives \<open>undefined\<close>.
\<close>

fun megaLink_of :: "property \<Rightarrow> jsstring option" where
  "megaLink_of (Own r) = Some (megaLink r)"
| "megaLink_of Inherited = None"

fun filename_of :: "property \<Rightarrow> jsstring option" where
  "filename_of (Own r) = Some (filename r)"
| "filename_of Inherited = None"

fun language_of :: "property \<Rightarrow> jsstring option" where
  "language_of (Own r) = Some (language r)"
| "language_of Inherited = None"

section \<open>The MEGA account, the process environment, requests and responses\<close>

text \<open>
  The storage account is outside the program. \<open>upload\<close> is \<open>storage.upload(name, buffer,
  callback)\<close>, \<open>link\<close> is \<open>file.link(callback)\<close>, and \<open>download\<close> is the sequence
  \<open>File.fromURL(link)\<close>, \<open>loadAttributes()\<close>, \<open>downloadBuffer()\<close> of the two read
  handlers; each gives an error (\<open>Inl\<close>: the callback's \<open>err\<close>, or an exception) or a
  result. An error has a \<open>message\<close>, which may be missing, and its \<open>String(err)\<close>.
\<close>

datatype js_error = Thrown "jsstring option" jsstring

fun error_text :: "js_error \<Rightarrow> jsstring" where
  "error_text (Thrown message as_string) = or_else message as_string"

record 'f mega =
  upload :: "jsstring \<Rightarrow> buffer \<Rightarrow> js_error + 'f"
  link :: "'f \<Rightarrow> js_error + jsstring"
  download :: "jsstring option \<Rightarrow> js_error + buffer"

text \<open>\<open>process.env.BASE_URL\<close> and \<open>process.env.PORT\<close>; \<open>PORT\<close> defaults to 3000.\<close>

record env =
  env_BASE_URL :: "jsstring option"
  env_PORT :: "jsstring option"

definition PORT :: "env \<Rightarrow> jsstring" where
  "PORT e = or_else (env_PORT e) (str ''3000'')"

text \<open>
  What the handler receives. \<open>req.body\<close> is \<open>undefined\<close> (\<open>None\<close>) when no parser has
  filled it in, and an object otherwise. A field \<open>content\<close> or \<open>filename\<close> of that object
  is
  \<^item> \<open>Missing\<close>: \<open>undefined\<close> or \<open>null\<close>, or the \<open>false\<close> or \<open>0\<close> of a JSON body; the
    handler applies \<open>&&\<close> to the filename and \<open>??\<close> followed by \<open>||\<close> to the content, and
    these take all four alike;
  \<^item> \<open>Text\<close>: a string;
  \<^item> \<open>Other\<close>: a truthy value that is not a string (a number, \<open>true\<close>, an array, an
    object). It has no method \<open>trim\<close>. It is given by what \<open>Buffer.from(v, 'utf8')\<close>
    makes of it: a TypeError with its message (a number, \<open>true\<close>), or bytes (an array).
  The fields \<open>language\<close> and \<open>expire\<close> are modelled as a string or absent. \<open>req_file\<close> is
  \<open>req.file.buffer\<close> when the request carries a file part, \<open>None\<close> when \<open>req.file\<close> is
  undefined.
\<close>

datatype jsvalue = Missing | Text jsstring | Other "jsstring + buffer"

record body =
  field_content :: jsvalue
  field_filename :: jsvalue
  field_language :: "jsstring option"
  field_expire :: "jsstring option"

record http_request =
  req_body :: "body option"
  req_file :: "buffer option"

text \<open>
  A request of a form with text fields: the body is an object, each field is a string or
  absent. \<open>text_request\<close> is that request as the handler receives it.
\<close>


record request =
  body_content :: "jsstring option"
  body_filename :: "jsstring option"
  body_language :: "jsstring option"
  body_expire :: "jsstring option"
  file_buffer :: "buffer option"

fun of_text :: "jsstring option \<Rightarrow> jsvalue" where
  "of_text None = Missing"
| "of_text (Some s) = Text s"

definition text_request :: "request \<Rightarrow> http_request" where
  "text_request req =
     \<lparr>req_body = Some \<lparr>field_content = of_text (body_content req),
                       field_filename = of_text (body_filename req),
                       field_language = body_language req,
                       field_expire = body_expire req\<rparr>,
      req_file = file_buffer req\<rparr>"

text \<open>
  The JSON bodies of the create handler: \<open>{ ok: true, slug, url, megaUrl }\<close> and
  \<open>{ ok: false, error }\<close>. The locals passed to the view \<open>paste\<close>. A response is a
  status with a JSON body, a status with headers and a text body, a rendered view, or a
  redirect to the argument given to \<open>res.redirect\<close>.
\<close>

datatype json = Created jsstring jsstring jsstring | Failed jsstring

record page =
  page_slug :: jsstring
  page_text :: jsstring
  page_filename :: "jsstring option"
  page_language :: "jsstring option"
  page_megaLink :: "jsstring option"

datatype response =
    Json nat json
  | Send nat "(jsstring \<times> jsstring) list" jsstring
  | Render jsstring page
  | Redirect "jsstring option"

text \<open>
  What a handler did: its response, the document \<open>db.json\<close> after it, and the calls it
  made to the storage account, in order.
\<close>

datatype call = Upload jsstring buffer | Link | Download "jsstring option"

record outcome =
  response :: response
  db_after :: db
  calls :: "call list"

section \<open>The handlers\<close>

text \<open>
  \<open>POST /api/paste\<close>. First the values the handler computes from a request with text
  fields, one definition for each \<open>const\<close> of the source: \<open>content\<close>, \<open>filenameProvided\<close>
  (\<open>None\<close> is \<open>null\<close>), \<open>language\<close>, \<open>expire\<close>, \<open>fileBuffer\<close>, \<open>filename\<close>, and the
  \<open>url\<close> of the response.
\<close>

definition req_content :: "request \<Rightarrow> jsstring" where
  "req_content req = nullish_or (body_content req) []"

definition req_filenameProvided :: "request \<Rightarrow> jsstring option" where
  "req_filenameProvided req =
     (case body_filename req of
        None \<Rightarrow> None
      | Some f \<Rightarrow> if f \<noteq> [] \<and> trim f \<noteq> [] then Some (trim f) else None)"

definition req_language :: "request \<Rightarrow> jsstring" where
  "req_language req = or_else (body_language req) (str ''text'')"

definition req_expire :: "request \<Rightarrow> jsstring option" where
  "req_expire req = (if truthy (body_expire req) then body_expire req else None)"

definition req_fileBuffer :: "request \<Rightarrow> buffer" where
  "req_fileBuffer req =
     (case file_buffer req of
        Some b \<Rightarrow> b
      | None \<Rightarrow> utf8_encode (or_else (Some (req_content req)) []))"

definition req_filename :: "request \<Rightarrow> jsstring \<Rightarrow> jsstring" where
  "req_filename req slug =
     or_else (req_filenameProvided req)
       (slug @ str ''.'' @ (if req_language req = str ''text'' then str ''txt''
                            else req_language req))"

definition base_url :: "env \<Rightarrow> jsstring" where
  "base_url e = or_else (env_BASE_URL e) (str ''http://localhost:'' @ PORT e)"

definition view_url :: "env \<Rightarrow> jsstring \<Rightarrow> jsstring" where
  "view_url e slug = base_url e @ str ''/paste/'' @ slug"

text \<open>
  The same lines on any request. Reading \<open>req.body.content\<close> throws a TypeError when
  \<open>req.body\<close> is undefined, \<open>req.body.filename.trim()\<close> throws one when the filename is a
  truthy value that is not a string, and \<open>Buffer.from(content || '', 'utf8')\<close> throws one
  for a number or \<open>true\<close>. The messages are those of V8.
\<close>

definition body_undefined_message :: jsstring where
  "body_undefined_message = str ''Cannot read properties of undefined (reading 'content')''"

definition trim_not_a_function_message :: jsstring where
  "trim_not_a_function_message = str ''req.body.filename.trim is not a function''"

definition http_content :: "jsvalue \<Rightarrow> jsvalue" where
  "http_content v = (case v of Missing \<Rightarrow> Text [] | Text s \<Rightarrow> Text s | Other r \<Rightarrow> Other r)"

definition http_filenameProvided :: "jsvalue \<Rightarrow> jsstring + jsstring option" where
  "http_filenameProvided v =
     (case v of
        Missing \<Rightarrow> Inr None
      | Text f \<Rightarrow> Inr (if f \<noteq> [] \<and> trim f \<noteq> [] then Some (trim f) else None)
      | Other r \<Rightarrow> Inl trim_not_a_function_message)"

definition http_fileBuffer :: "buffer option \<Rightarrow> jsvalue \<Rightarrow> jsstring + buffer" where
  "http_fileBuffer file_part content =
     (case file_part of
        Some b \<Rightarrow> Inr b
      | None \<Rightarrow>
          (case content of
             Missing \<Rightarrow> Inr (utf8_encode [])
           | Text c \<Rightarrow> Inr (utf8_encode (or_else (Some c) []))
           | Other r \<Rightarrow> r))"

text \<open>
  The outer \<open>catch\<close>: \<open>res.status(500).json({ ok: false, error: e.message })\<close>, with no
  call to the storage account and the document as it was.
\<close>

definition caught :: "db \<Rightarrow> jsstring \<Rightarrow> outcome" where
  "caught file message =
     \<lparr>response = Json 500 (Failed message), db_after = file, calls = []\<rparr>"

text \<open>
  The handler. \<open>randomBytes\<close> is the result of \<open>crypto.randomBytes(16)\<close>, \<open>now\<close> the
  result of \<open>new Date().toISOString()\<close>, \<open>file\<close> the document \<open>db.json\<close>. What is thrown
  in the \<open>try\<close> block before the promise is answered by the outer \<open>catch\<close>. An error of
  \<open>upload\<close> or of \<open>link\<close> rejects the promise, and \<open>.catch\<close> answers with status 500; the
  document is read and written only in the callback of \<open>link\<close>, and reading and writing it
  are taken to succeed. \<open>storageReady\<close> only decides whether a warning is logged.
\<close>

definition post_api_paste ::
  "env \<Rightarrow> 'f mega \<Rightarrow> buffer \<Rightarrow> jsstring \<Rightarrow> db \<Rightarrow> http_request \<Rightarrow> outcome" where
  "post_api_paste e mega randomBytes now file req =
     (case req_body req of
        None \<Rightarrow> caught file body_undefined_message
      | Some body \<Rightarrow>
          (let content = http_content (field_content body)
           in case http_filenameProvided (field_filename body) of
                Inl message \<Rightarrow> caught file message
              | Inr filenameProvided \<Rightarrow>
                  (let language = or_else (field_language body) (str ''text'');
                       expire = (if truthy (field_expire body) then field_expire body
                                 else None)
                   in case http_fileBuffer (req_file req) content of
                        Inl message \<Rightarrow> caught file message
                      | Inr fileBuffer \<Rightarrow>
                          (let slug = hex randomBytes;
                               filename =
                                 or_else filenameProvided
                                   (slug @ str ''.'' @ (if language = str ''text''
                                                        then str ''txt'' else language))
                           in case upload mega filename fileBuffer of
                                Inl err \<Rightarrow>
                                  \<lparr>response = Json 500 (Failed (error_text err)),
                                   db_after = file,
                                   calls = [Upload filename fileBuffer]\<rparr>
                              | Inr f \<Rightarrow>
                                  (case link mega f of
                                     Inl err2 \<Rightarrow>
                                       \<lparr>response = Json 500 (Failed (error_text err2)),
                                        db_after = file,
                                        calls = [Upload filename fileBuffer, Link]\<rparr>
                                   | Inr l \<Rightarrow>
                                       (let db = readDB file;
                                            db = db(slug \<mapsto>
                                                   \<lparr>filename = filename,
                                                    language = language,
                                                    megaLink = l, createdAt = now\<rparr>)
                                        in \<lparr>response =
                                              Json 200 (Created slug (view_url e slug) l),
                                            db_after = writeDB db file,
                                            calls = [Upload filename fileBuffer,
                                                     Link]\<rparr>))))))"

text \<open>
  The handler on a request with text fields. There nothing is thrown before the promise,
  and the values are those of the definitions above (lemma \<open>create_paste_text\<close>).
\<close>

definition create_paste ::
  "env \<Rightarrow> 'f mega \<Rightarrow> buffer \<Rightarrow> jsstring \<Rightarrow> db \<Rightarrow> request \<Rightarrow> outcome" where
  "create_paste e mega randomBytes now file req =
     post_api_paste e mega randomBytes now file (text_request req)"

text \<open>\<open>GET /paste/:slug\<close>.\<close>

definition view_paste :: "'f mega \<Rightarrow> db \<Rightarrow> jsstring \<Rightarrow> outcome" where
  "view_paste mega file slug =
     (let db = readDB file;
          record = lookup db slug
      in case record of
           None \<Rightarrow>
             \<lparr>response = Send 404 [] (str ''Paste not found''), db_after = file, calls = []\<rparr>
         | Some r \<Rightarrow>
             (case download mega (megaLink_of r) of
                Inr buffer \<Rightarrow>
                  (let text = utf8_decode buffer
                   in \<lparr>response =
                         Render (str ''paste'')
                           \<lparr>page_slug = slug, page_text = text, page_filename = filename_of r,
                            page_language = language_of r, page_megaLink = megaLink_of r\<rparr>,
                       db_after = file, calls = [Download (megaLink_of r)]\<rparr>)
              | Inl err \<Rightarrow>
                  \<lparr>response = Redirect (megaLink_of r), db_after = file,
                   calls = [Download (megaLink_of r)]\<rparr>))"

text \<open>\<open>GET /raw/:slug\<close>.\<close>

definition raw_paste :: "'f mega \<Rightarrow> db \<Rightarrow> jsstring \<Rightarrow> outcome" where
  "raw_paste mega file slug =
     (let db = readDB file;
          record = lookup db slug
      in case record of
           None \<Rightarrow> \<lparr>response = Send 404 [] (str ''Not found''), db_after = file, calls = []\<rparr>
         | Some r \<Rightarrow>
             (case download mega (megaLink_of r) of
                Inr buffer \<Rightarrow>
                  \<lparr>response =
                     Send 200 [(str ''Content-Type'', str ''text/plain; charset=utf-8'')]
                       (utf8_decode buffer),
                   db_after = file, calls = [Download (megaLink_of r)]\<rparr>
              | Inl err \<Rightarrow>
                  \<lparr>response = Redirect (megaLink_of r), db_after = file,
                   calls = [Download (megaLink_of r)]\<rparr>))"

text \<open>
  The HTTP status of a response: \<open>res.render\<close> and \<open>res.send\<close> answer 200 unless
  \<open>res.status\<close> was called, \<open>res.redirect\<close> answers 302.
\<close>

fun status :: "response \<Rightarrow> nat" where
  "status (Json n j) = n"
| "status (Send n hs t) = n"
| "status (Render v p) = 200"
| "status (Redirect l) = 302"

text \<open>
  The two steps of storing a buffer in the account, as the create handler chains them:
  \<open>upload\<close>, then \<open>link\<close> on the uploaded file.
\<close>

definition store :: "'f mega \<Rightarrow> jsstring \<Rightarrow> buffer \<Rightarrow> js_error + jsstring" where
  "store mega name bytes =
     (case upload mega name bytes of Inl err \<Rightarrow> Inl err | Inr f \<Rightarrow> link mega f)"

section \<open>Example values\<close>

text \<open>
  A deployment with a base URL, sixteen random bytes with their slug, a storage account that
  accepts every upload and serves the bytes of \<open>hello world\<close> under its link, an
  account that is unreachable, and three requests: the scenario of the specification
  (content \<open>hello world\<close>, no filename, no language), a paste with a blank filename,
  the language \<open>python\<close> and an \<open>expire\<close> value, and a request without any field.
  \<open>example_db\<close> is the document after the first request on the empty document.
  \<open>bodyless_request\<close> is a request whose body no parser filled in. \<open>honest_mega\<close> is an
  account that keeps what is uploaded: the link of a file spells its bytes, and a download
  reads them back. \<open>file_request\<close> carries a file part beside a \<open>content\<close> field.
\<close>

definition example_env :: env where
  "example_env = \<lparr>env_BASE_URL = Some (str ''https://paste.example''), env_PORT = None\<rparr>"

definition example_randomBytes :: buffer where
  "example_randomBytes =
     [0x00, 0x01, 0x02, 0x03, 0x04, 0x05, 0x06, 0x07,
      0x08, 0x09, 0x0a, 0x0b, 0x0c, 0x0d, 0x0e, 0xff]"

definition example_slug :: jsstring where
  "example_slug = str ''000102030405060708090a0b0c0d0eff''"

definition example_link :: jsstring where
  "example_link = str ''https://mega.nz/file/abc#key''"

definition example_now :: jsstring where
  "example_now = str ''2024-05-01T10:00:00.000Z''"

definition example_error :: js_error where
  "example_error = Thrown (Some (str ''ENOTFOUND'')) (str ''Error: ENOTFOUND'')"

definition example_mega :: "nat mega" where
  "example_mega =
     \<lparr>upload = (\<lambda>name bytes. Inr 0),
      link = (\<lambda>f. Inr example_link),
      download = (\<lambda>l. if l = Some example_link then Inr (utf8_encode (str ''hello world''))
                       else Inl example_error)\<rparr>"

definition offline_mega :: "nat mega" where
  "offline_mega =
     \<lparr>upload = (\<lambda>name bytes. Inl example_error),
      link = (\<lambda>f. Inl example_error),
      download = (\<lambda>l. Inl example_error)\<rparr>"

definition example_request :: request where
  "example_request =
     \<lparr>body_content = Some (str ''hello world''), body_filename = None, body_language = None,
      body_expire = None, file_buffer = None\<rparr>"

definition python_request :: request where
  "python_request =
     \<lparr>body_content = Some (str ''print(1)''), body_filename = Some (str ''   ''),
      body_language = Some (str ''python''), body_expire = Some (str ''1h''),
      file_buffer = None\<rparr>"

definition empty_request :: request where
  "empty_request =
     \<lparr>body_content = None, body_filename = None, body_language = None, body_expire = None,
      file_buffer = None\<rparr>"

definition other_randomBytes :: buffer where
  "other_randomBytes =
     [0x10, 0x11, 0x12, 0x13, 0x14, 0x15, 0x16, 0x17,
      0x18, 0x19, 0x1a, 0x1b, 0x1c, 0x1d, 0x1e, 0x1f]"

definition example_paste :: paste where
  "example_paste =
     \<lparr>filename = str ''000102030405060708090a0b0c0d0eff.txt'', language = str ''text'',
      megaLink = example_link, createdAt = example_now\<rparr>"


definition honest_prefix :: jsstring where
  "honest_prefix = str ''https://mega.nz/file/''"

definition honest_mega :: "buffer mega" where
  "honest_mega =
     \<lparr>upload = (\<lambda>name bytes. Inr bytes),
      link = (\<lambda>f. Inr (honest_prefix @ map ucast f)),
      download = (\<lambda>l. case l of
                         None \<Rightarrow> Inl example_error
                       | Some s \<Rightarrow>
                           if take (length honest_prefix) s = honest_prefix
                           then Inr (map ucast (drop (length honest_prefix) s))
                           else Inl example_error)\<rparr>"

definition file_request :: request where
  "file_request =
     \<lparr>body_content = Some (str ''ignored''), body_filename = Some (str '' up.txt ''),
      body_language = None, body_expire = None,
      file_buffer = Some (utf8_encode (str ''hello world''))\<rparr>"

definition empty_db :: db where
  "empty_db = Map.empty"

definition example_db :: db where
  "example_db = empty_db(example_slug \<mapsto> example_paste)"

section \<open>UTF-8 gives well-formed strings back\<close>

text \<open>
  Decoding the encoding of a string without lone surrogates gives the string: one lemma for
  each length of a sequence, then the code points of the Basic Multilingual Plane, the
  surrogate pairs, and induction over the string.
\<close>

lemma unat_byte: "n < 256 \<Longrightarrow> unat (of_nat n :: 8 word) = n"
  by (simp add: unat_of_nat)

lemma decode1:
  assumes "unat b0 < 128"
  shows "utf8_decode (b0 # rest) = of_nat (unat b0) # utf8_decode rest"
  using assms by (simp add: word_less_nat_alt units_of_cp_def)

lemma decode2:
  assumes "194 \<le> unat b0" "unat b0 \<le> 223" "128 \<le> unat b1" "unat b1 \<le> 191"
  shows "utf8_decode (b0 # b1 # rest) =
           units_of_cp (unat b0 mod 32 * 64 + unat b1 mod 64) @ utf8_decode rest"
  using assms by (simp add: word_less_nat_alt word_le_nat_alt cont_def low6_def)

lemma decode3:
  assumes "224 \<le> unat b0" "unat b0 \<le> 239"
    "(if unat b0 = 224 then 160 else 128) \<le> unat b1"
    "unat b1 \<le> (if unat b0 = 237 then 159 else 191)"
    "128 \<le> unat b2" "unat b2 \<le> 191"
  shows "utf8_decode (b0 # b1 # b2 # rest) =
           units_of_cp (unat b0 mod 16 * 4096 + unat b1 mod 64 * 64 + unat b2 mod 64)
             @ utf8_decode rest"
proof -
  have s: "second_ok b0 b1"
    using assms
    by (auto simp add: second_ok_def word_le_nat_alt word_unat_eq_iff split: if_splits)
  show ?thesis
    using assms s by (simp add: word_less_nat_alt word_le_nat_alt cont_def low6_def)
qed

lemma decode4:
  assumes "240 \<le> unat b0" "unat b0 \<le> 244"
    "(if unat b0 = 240 then 144 else 128) \<le> unat b1"
    "unat b1 \<le> (if unat b0 = 244 then 143 else 191)"
    "128 \<le> unat b2" "unat b2 \<le> 191" "128 \<le> unat b3" "unat b3 \<le> 191"
  shows "utf8_decode (b0 # b1 # b2 # b3 # rest) =
           units_of_cp (unat b0 mod 8 * 262144 + unat b1 mod 64 * 4096 + unat b2 mod 64 * 64
                          + unat b3 mod 64)
             @ utf8_decode rest"
proof -
  have s: "second_ok b0 b1"
    using assms
    by (auto simp add: second_ok_def word_le_nat_alt word_unat_eq_iff split: if_splits)
  show ?thesis
    using assms s by (simp add: word_less_nat_alt word_le_nat_alt cont_def low6_def)
qed

lemma unit_bound: "unat (c :: 16 word) < 65536"
  using unsigned_less [of c, where ?'a = nat] by simp

lemma mod_add_mult: "y < m \<Longrightarrow> (q * m + y) mod m = (y::nat)"
  by simp

lemma digits3: "n div 4096 * 4096 + n div 64 mod 64 * 64 + n mod 64 = (n::nat)"
  using mod_mult2_eq [of n 64 64] div_mult_mod_eq [of n 4096] by simp

lemma digits4:
  "n div 262144 * 262144 + n div 4096 mod 64 * 4096 + n div 64 mod 64 * 64 + n mod 64 = (n::nat)"
proof -
  have "n div 262144 = n div 4096 div 64"
    using div_mult2_eq [of n 4096 64] by simp
  then have "n div 262144 * 64 + n div 4096 mod 64 = n div 4096"
    by simp
  then have "n div 262144 * 262144 + n div 4096 mod 64 * 4096 = n div 4096 * 4096"
    by linarith
  then show ?thesis
    using digits3 [of n] by linarith
qed

lemma decode_encode_bmp:
  assumes ns: "n < 55296 \<or> (57343 < n \<and> n < 65536)"
  shows "utf8_decode (encode_cp n @ rest) = of_nat n # utf8_decode rest"
proof -
  have bound: "n < 65536"
    using ns by linarith
  define a where "a = n div 4096"
  define b where "b = n div 64 mod 64"
  define d where "d = n mod 64"
  have n: "n = a * 4096 + b * 64 + d"
    unfolding a_def b_def d_def by (simp add: digits3)
  have b: "b < 64" and d: "d < 64"
    by (simp_all add: b_def d_def)
  have a: "a < 16"
    using n bound by linarith
  have bd: "(128 + b) mod 64 = b" "(128 + d) mod 64 = d"
    using mod_add_mult [of b 64 2] mod_add_mult [of d 64 2] b d by simp_all
  have ub: "unat (of_nat (128 + b) :: 8 word) = 128 + b"
    using b by (intro unat_byte) linarith
  have ud: "unat (of_nat (128 + d) :: 8 word) = 128 + d"
    using d by (intro unat_byte) linarith
  consider "n < 128" | "128 \<le> n" "n < 2048" | "2048 \<le> n"
    by linarith
  then show ?thesis
  proof cases
    case 1
    then have "unat (of_nat n :: 8 word) = n"
      by (simp add: unat_byte)
    with 1 show ?thesis
      by (simp add: encode_cp_def decode1 del: utf8_decode.simps)
  next
    case 2
    have a0: "a = 0"
      using n 2 by linarith
    have b2: "2 \<le> b"
      using n 2 a0 d by linarith
    have e: "encode_cp n = [of_nat (192 + b), of_nat (128 + d)]"
      using 2 a0 by (simp add: encode_cp_def a_def b_def d_def)
    have u0: "unat (of_nat (192 + b) :: 8 word) = 192 + b"
      using b by (intro unat_byte) linarith
    have b32: "b < 32"
      using n 2 a0 by linarith
    have m0: "(192 + b) mod 32 = b"
      using mod_add_mult [of b 32 6] b32 by simp
    have r: "194 \<le> 192 + b" "192 + b \<le> 223" "128 \<le> 128 + d" "128 + d \<le> 191"
      using b2 b32 d by linarith+
    have v: "(192 + b) mod 32 * 64 + (128 + d) mod 64 = n"
      using n a0 by (simp add: m0 bd)
    have "utf8_decode (of_nat (192 + b) # of_nat (128 + d) # rest)
            = units_of_cp n @ utf8_decode rest"
      using decode2 [of "of_nat (192 + b)" "of_nat (128 + d)" rest] r
      by (simp only: u0 ud v)
    with bound show ?thesis
      by (simp add: e units_of_cp_def del: utf8_decode.simps)
  next
    case 3
    have e: "encode_cp n = [of_nat (224 + a), of_nat (128 + b), of_nat (128 + d)]"
      using 3 bound by (simp add: encode_cp_def a_def b_def d_def)
    have u0: "unat (of_nat (224 + a) :: 8 word) = 224 + a"
      using a by (intro unat_byte) linarith
    have m0: "(224 + a) mod 16 = a"
      using mod_add_mult [of a 16 14] a by simp
    have lo: "(if 224 + a = 224 then 160 else 128) \<le> 128 + b"
      using n 3 d by (simp split: if_splits)
    have hi: "128 + b \<le> (if 224 + a = 237 then 159 else 191)"
    proof (cases "a = 13")
      case True
      with n b d have "n < 57344"
        by linarith
      with ns have "n < 55296"
        by linarith
      with True n have "b < 32"
        by linarith
      with True show ?thesis
        by simp
    next
      case False
      with b show ?thesis
        by simp
    qed
    have r: "224 \<le> 224 + a" "224 + a \<le> 239" "128 \<le> 128 + d" "128 + d \<le> 191"
      using a d by linarith+
    have v: "(224 + a) mod 16 * 4096 + (128 + b) mod 64 * 64 + (128 + d) mod 64 = n"
      using n by (simp add: m0 bd)
    have "utf8_decode (of_nat (224 + a) # of_nat (128 + b) # of_nat (128 + d) # rest)
            = units_of_cp n @ utf8_decode rest"
      using decode3 [of "of_nat (224 + a)" "of_nat (128 + b)" "of_nat (128 + d)" rest] r lo hi
      by (simp only: u0 ub ud v)
    with bound show ?thesis
      by (simp add: e units_of_cp_def del: utf8_decode.simps)
  qed
qed

lemma decode_encode_astral:
  assumes lo: "65536 \<le> n" and hi: "n < 1114112"
  shows "utf8_decode (encode_cp n @ rest) = units_of_cp n @ utf8_decode rest"
proof -
  define a where "a = n div 262144"
  define b where "b = n div 4096 mod 64"
  define c where "c = n div 64 mod 64"
  define d where "d = n mod 64"
  have n: "n = a * 262144 + b * 4096 + c * 64 + d"
    unfolding a_def b_def c_def d_def by (simp add: digits4)
  have b: "b < 64" and c: "c < 64" and d: "d < 64"
    by (simp_all add: b_def c_def d_def)
  have a: "a < 5"
    using n hi by linarith
  have m: "(240 + a) mod 8 = a" "(128 + b) mod 64 = b" "(128 + c) mod 64 = c"
    "(128 + d) mod 64 = d"
    using mod_add_mult [of a 8 30] mod_add_mult [of b 64 2] mod_add_mult [of c 64 2]
      mod_add_mult [of d 64 2] a b c d
    by simp_all
  have u: "unat (of_nat (240 + a) :: 8 word) = 240 + a"
    "unat (of_nat (128 + b) :: 8 word) = 128 + b"
    "unat (of_nat (128 + c) :: 8 word) = 128 + c"
    "unat (of_nat (128 + d) :: 8 word) = 128 + d"
    using a b c d by (intro unat_byte, linarith)+
  have e: "encode_cp n =
             [of_nat (240 + a), of_nat (128 + b), of_nat (128 + c), of_nat (128 + d)]"
    using lo by (simp add: encode_cp_def a_def b_def c_def d_def)
  have low: "(if 240 + a = 240 then 144 else 128) \<le> 128 + b"
  proof (cases "a = 0")
    case True
    with n lo c d have "16 \<le> b"
      by linarith
    with True show ?thesis
      by simp
  next
    case False
    then show ?thesis
      by simp
  qed
  have high: "128 + b \<le> (if 240 + a = 244 then 143 else 191)"
  proof (cases "a = 4")
    case True
    with n hi have "b < 16"
      by linarith
    with True show ?thesis
      by simp
  next
    case False
    with b show ?thesis
      by simp
  qed
  have r: "240 \<le> 240 + a" "240 + a \<le> 244" "128 \<le> 128 + c" "128 + c \<le> 191"
    "128 \<le> 128 + d" "128 + d \<le> 191"
    using a c d by linarith+
  have v: "(240 + a) mod 8 * 262144 + (128 + b) mod 64 * 4096 + (128 + c) mod 64 * 64
             + (128 + d) mod 64 = n"
    using n by (simp add: m)
  have "utf8_decode (of_nat (240 + a) # of_nat (128 + b) # of_nat (128 + c)
                       # of_nat (128 + d) # rest)
          = units_of_cp n @ utf8_decode rest"
    using decode4 [of "of_nat (240 + a)" "of_nat (128 + b)" "of_nat (128 + c)"
                      "of_nat (128 + d)" rest] r low high
    by (simp only: u v)
  then show ?thesis
    by (simp add: e del: utf8_decode.simps)
qed

lemma units_of_pair:
  assumes "is_high h" "is_low l"
  shows "units_of_cp (pair_cp h l) = [h, l]"
    and "65536 \<le> pair_cp h l" and "pair_cp h l < 1114112"
proof -
  define x where "x = unat h - 55296"
  define y where "y = unat l - 56320"
  have hr: "55296 \<le> unat h" "unat h \<le> 56319"
    using assms(1) by (simp_all add: is_high_def word_le_nat_alt)
  have lr: "56320 \<le> unat l" "unat l \<le> 57343"
    using assms(2) by (simp_all add: is_low_def word_le_nat_alt)
  have h: "unat h = 55296 + x" and x: "x < 1024"
    using hr unfolding x_def by linarith+
  have l: "unat l = 56320 + y" and y: "y < 1024"
    using lr unfolding y_def by linarith+
  have p: "pair_cp h l = 65536 + x * 1024 + y"
    by (simp add: pair_cp_def x_def y_def)
  have dv: "(x * 1024 + y) div 1024 = x" and md: "(x * 1024 + y) mod 1024 = y"
    using y by simp_all
  have "of_nat (55296 + x) = h" "of_nat (56320 + y) = l"
    using h l by (metis of_nat_unat ucast_id)+
  then show "units_of_cp (pair_cp h l) = [h, l]"
    using x y by (simp add: units_of_cp_def p dv md)
  show "65536 \<le> pair_cp h l" "pair_cp h l < 1114112"
    using x y by (simp_all add: p)
qed

lemma utf8_roundtrip: "isWellFormed s \<Longrightarrow> utf8_decode (utf8_encode s) = s"
proof (induction s rule: isWellFormed.induct)
  case 1
  show ?case by simp
next
  case (2 c cs)
  show ?case
  proof (cases "is_high c")
    case True
    with "2.prems" obtain d ds where cs: "cs = d # ds" and d: "is_low d" and wf: "isWellFormed ds"
      by (auto split: list.splits)
    from "2.IH"(1) [OF True cs] d wf have ih: "utf8_decode (utf8_encode ds) = ds"
      by simp
    show ?thesis
      using True d units_of_pair [OF True d] ih
      by (simp add: cs decode_encode_astral del: utf8_decode.simps)
  next
    case False
    with "2.prems" have l: "\<not> is_low c" and wf: "isWellFormed cs"
      by simp_all
    from "2.IH"(2) [OF False] wf have ih: "utf8_decode (utf8_encode cs) = cs"
      by simp
    have ns: "unat c < 55296 \<or> (57343 < unat c \<and> unat c < 65536)"
      using False l unit_bound [of c]
      by (simp add: is_high_def is_low_def word_le_nat_alt) linarith
    have "of_nat (unat c) = c"
      by simp
    then show ?thesis
      using False l ih decode_encode_bmp [OF ns, of "utf8_encode cs"]
      by (simp del: utf8_decode.simps of_nat_unat)
  qed
qed

section \<open>Facts about the handlers\<close>

lemma or_else_Some_Nil: "or_else (Some s) [] = s"
  by (simp add: or_else_def)

lemma trim_Nil: "trim [] = []"
  by (simp add: trim_def)

lemma text_request_consts:
  "http_filenameProvided (of_text (body_filename req)) = Inr (req_filenameProvided req)"
  "http_fileBuffer (file_buffer req) (http_content (of_text (body_content req)))
     = Inr (req_fileBuffer req)"
  by (auto simp add: http_filenameProvided_def req_filenameProvided_def http_fileBuffer_def
        http_content_def req_fileBuffer_def req_content_def nullish_or_def or_else_def
        split: option.splits)

lemma create_paste_text:
  "create_paste e mega randomBytes now file req =
     (let content = req_content req;
          filenameProvided = req_filenameProvided req;
          language = req_language req;
          expire = req_expire req;
          fileBuffer = req_fileBuffer req;
          slug = hex randomBytes;
          filename = req_filename req slug
      in case upload mega filename fileBuffer of
           Inl err \<Rightarrow>
             \<lparr>response = Json 500 (Failed (error_text err)), db_after = file,
              calls = [Upload filename fileBuffer]\<rparr>
         | Inr f \<Rightarrow>
             (case link mega f of
                Inl err2 \<Rightarrow>
                  \<lparr>response = Json 500 (Failed (error_text err2)), db_after = file,
                   calls = [Upload filename fileBuffer, Link]\<rparr>
              | Inr l \<Rightarrow>
                  (let db = readDB file;
                       db = db(slug \<mapsto> \<lparr>filename = filename, language = language,
                                         megaLink = l, createdAt = now\<rparr>)
                   in \<lparr>response = Json 200 (Created slug (view_url e slug) l),
                       db_after = writeDB db file,
                       calls = [Upload filename fileBuffer, Link]\<rparr>)))"
proof -
  have l: "or_else (body_language req) (str ''text'') = req_language req"
    by (simp only: req_language_def)
  have n: "or_else (req_filenameProvided req)
             (hex randomBytes @ str ''.'' @ (if req_language req = str ''text'' then str ''txt''
                                             else req_language req))
           = req_filename req (hex randomBytes)"
    by (simp only: req_filename_def)
  show ?thesis
    unfolding create_paste_def post_api_paste_def Let_def text_request_def
    by (simp only: http_request.select_convs body.select_convs option.case sum.case
          text_request_consts l n)
qed

lemma req_filenameProvided_eq:
  "req_filenameProvided req =
     (case body_filename req of
        None \<Rightarrow> None
      | Some f \<Rightarrow> if trim f \<noteq> [] then Some (trim f) else None)"
  by (auto simp add: req_filenameProvided_def trim_Nil split: option.splits)

lemma req_expire_update:
  "req_content (req\<lparr>body_expire := z\<rparr>) = req_content req"
  "req_language (req\<lparr>body_expire := z\<rparr>) = req_language req"
  "req_filenameProvided (req\<lparr>body_expire := z\<rparr>) = req_filenameProvided req"
  by (simp_all add: req_content_def req_language_def req_filenameProvided_def)

lemma req_expire_update_derived:
  "req_fileBuffer (req\<lparr>body_expire := z\<rparr>) = req_fileBuffer req"
  "req_filename (req\<lparr>body_expire := z\<rparr>) s = req_filename req s"
  by (simp_all add: req_fileBuffer_def req_filename_def req_expire_update
        cong: option.case_cong)

lemma created_iff:
  assumes "response (create_paste e mega rb now file req) = Json 200 (Created slug u l)"
  shows "slug = hex rb \<and> u = view_url e (hex rb)
       \<and> store mega (req_filename req (hex rb)) (req_fileBuffer req) = Inr l"
  using assms
  by (auto simp add: create_paste_text store_def Let_def split: sum.splits)

lemma created_db:
  assumes "store mega (req_filename req (hex rb)) (req_fileBuffer req) = Inr l"
  shows "db_after (create_paste e mega rb now file req) =
           file(hex rb \<mapsto> \<lparr>filename = req_filename req (hex rb), language = req_language req,
                             megaLink = l, createdAt = now\<rparr>)"
  using assms
  by (auto simp add: create_paste_text store_def Let_def readDB_def writeDB_def split: sum.splits)

lemma create_keeps_other_slugs:
  assumes "s \<noteq> hex rb"
  shows "db_after (create_paste e mega rb now file req) s = file s"
  using assms
  by (simp add: create_paste_text Let_def readDB_def writeDB_def split: sum.splits)

lemma view_keeps_db: "db_after (view_paste mega file slug) = file"
  by (simp add: view_paste_def Let_def split: option.splits sum.splits)

lemma raw_keeps_db: "db_after (raw_paste mega file slug) = file"
  by (simp add: raw_paste_def Let_def split: option.splits sum.splits)

lemma view_own:
  assumes "file slug = Some r" and "download mega (Some (megaLink r)) = Inr b"
  shows "response (view_paste mega file slug) =
           Render (str ''paste'')
             \<lparr>page_slug = slug, page_text = utf8_decode b, page_filename = Some (filename r),
              page_language = Some (language r), page_megaLink = Some (megaLink r)\<rparr>"
  using assms by (simp add: view_paste_def readDB_def lookup_def Let_def)

lemma raw_own:
  assumes "file slug = Some r" and "download mega (Some (megaLink r)) = Inr b"
  shows "response (raw_paste mega file slug) =
           Send 200 [(str ''Content-Type'', str ''text/plain; charset=utf-8'')] (utf8_decode b)"
  using assms by (simp add: raw_paste_def readDB_def lookup_def Let_def)

text \<open>
  A slug that is neither a key of the document nor a key of \<open>Object.prototype\<close> is
  answered with status 404, without a call to the storage account. A slug that is a key of
  \<open>Object.prototype\<close> only passes the check \<open>!record\<close>, whatever the account does.
\<close>

lemma absent_slug_not_found:
  assumes "file slug = None" and "slug \<notin> set object_prototype_keys"
  shows "view_paste mega file slug =
           \<lparr>response = Send 404 [] (str ''Paste not found''), db_after = file, calls = []\<rparr>
       \<and> raw_paste mega file slug =
           \<lparr>response = Send 404 [] (str ''Not found''), db_after = file, calls = []\<rparr>"
  using assms by (simp add: view_paste_def raw_paste_def readDB_def lookup_def Let_def)

lemma inherited_key_not_404:
  assumes "file slug = None" and "slug \<in> set object_prototype_keys"
  shows "status (response (view_paste mega file slug)) \<noteq> 404
       \<and> status (response (raw_paste mega file slug)) \<noteq> 404"
  using assms
  by (simp add: view_paste_def raw_paste_def readDB_def lookup_def Let_def split: sum.splits)

text \<open>
  What the outer \<open>catch\<close> answers: a request without a parsed body, and a filename that is
  not a string. No request changes the record of a slug other than the new one.
\<close>

lemma bodyless_caught:
  assumes "req_body req = None"
  shows "post_api_paste e mega rb now file req = caught file body_undefined_message"
  using assms by (simp add: post_api_paste_def)

lemma non_text_filename_caught:
  assumes "req_body req = Some b" and "field_filename b = Other r"
  shows "post_api_paste e mega rb now file req = caught file trim_not_a_function_message"
  using assms by (simp add: post_api_paste_def http_filenameProvided_def Let_def)

lemma post_keeps_other_slugs:
  assumes "s \<noteq> hex rb"
  shows "db_after (post_api_paste e mega rb now file req) s = file s"
  using assms
  by (simp add: post_api_paste_def caught_def Let_def readDB_def writeDB_def
        split: option.splits sum.splits)

subsection \<open>The examples, evaluated\<close>

lemma hex_example: "hex example_randomBytes = example_slug"
  by (simp add: hex_def hex_digit_def example_randomBytes_def example_slug_def str_def)

lemma hex_other: "hex other_randomBytes = str ''101112131415161718191a1b1c1d1e1f''"
  by (simp add: hex_def hex_digit_def other_randomBytes_def str_def)

lemma example_content: "req_content example_request = str ''hello world''"
  by (simp add: req_content_def example_request_def nullish_or_def)

lemma example_no_file: "file_buffer example_request = None"
  by (simp add: example_request_def)

lemma example_fileBuffer: "req_fileBuffer example_request = utf8_encode (str ''hello world'')"
  by (simp add: req_fileBuffer_def example_no_file example_content or_else_Some_Nil)

lemma example_language: "req_language example_request = str ''text''"
  by (simp add: req_language_def example_request_def or_else_def)

lemma example_filename:
  "req_filename example_request example_slug = str ''000102030405060708090a0b0c0d0eff.txt''"
  by (simp add: req_filename_def req_filenameProvided_def req_language_def example_request_def
        or_else_def example_slug_def str_def)

lemma python_filename:
  "req_filename python_request example_slug = str ''000102030405060708090a0b0c0d0eff.python''"
  by (simp add: req_filename_def req_filenameProvided_def req_language_def python_request_def
        or_else_def example_slug_def str_def trim_def is_space_def)

lemma python_language: "req_language python_request = str ''python''"
  by (simp add: req_language_def python_request_def or_else_def str_def)

lemma empty_filename: "req_filename empty_request s = s @ str ''.txt''"
  by (simp add: req_filename_def req_filenameProvided_def req_language_def empty_request_def
        or_else_def str_def)

lemma empty_language: "req_language empty_request = str ''text''"
  by (simp add: req_language_def empty_request_def or_else_def)


lemma example_store: "store example_mega name bytes = Inr example_link"
  by (simp add: store_def example_mega_def)


lemma example_error_text: "error_text example_error = str ''ENOTFOUND''"
  by (simp add: example_error_def or_else_def str_def)

lemma example_paste_link: "megaLink example_paste = example_link"
  by (simp add: example_paste_def)

lemma example_db_slug: "example_db example_slug = Some example_paste"
  by (simp add: example_db_def)

lemma example_create:
  "create_paste example_env example_mega example_randomBytes example_now empty_db
       example_request =
     \<lparr>response = Json 200 (Created example_slug (view_url example_env example_slug)
                   example_link),
      db_after = example_db,
      calls = [Upload (str ''000102030405060708090a0b0c0d0eff.txt'')
                 (utf8_encode (str ''hello world'')), Link]\<rparr>"
  by (simp add: create_paste_text hex_example Let_def example_filename example_fileBuffer
        example_language example_mega_def readDB_def writeDB_def example_db_def
        example_paste_def)

lemma ucast_byte_unit: "ucast (ucast (b :: 8 word) :: 16 word) = b"
  by (rule ucast_up_ucast_id) (simp add: is_up)

lemma honest_download:
  "download honest_mega (Some (honest_prefix @ map ucast bytes)) = Inr bytes"
  by (simp add: honest_mega_def ucast_byte_unit comp_def)

lemma honest_mega_keeps:
  "upload honest_mega name bytes = Inr f \<and> link honest_mega f = Inr l
     \<longrightarrow> download honest_mega (Some l) = Inr bytes"
  using honest_download [of bytes] by (auto simp add: honest_mega_def)

lemma hello_bytes_link:
  "honest_prefix @ map ucast (utf8_encode (str ''hello world''))
     = str ''https://mega.nz/file/hello world''"
  by (simp add: honest_prefix_def str_def is_high_def is_low_def encode_cp_def)

lemma hello_well_formed: "isWellFormed (str ''hello world'')"
  by (simp add: str_def is_high_def is_low_def)

section \<open>The claims\<close>

text \<open>
  C1. Create followed by View or Raw gives back the content. The content \<open>t\<close> of a
  request is the text whose UTF-8 bytes its file part carries, or, without a file part, its
  \<open>content\<close> field. When the create handler answers with a slug and a link, \<open>t\<close> is
  UTF-8-representable (a string without lone surrogates), and the storage account keeps what
  is uploaded (whatever bytes an upload with that link carried, a download of the link gives
  them), then the view handler renders exactly \<open>t\<close> for the returned slug, with the stored
  filename, language and link, and the raw handler sends exactly \<open>t\<close> as plain text.
\<close>

theorem create_then_view_roundtrip:
  assumes created: "response (create_paste e mega rb now file req) = Json 200 (Created slug u l)"
    and content: "file_buffer req = Some (utf8_encode t)
                \<or> (file_buffer req = None \<and> body_content req = Some t)"
    and representable: "isWellFormed t"
    and honest: "\<forall>name bytes f. upload mega name bytes = Inr f \<and> link mega f = Inr l
                   \<longrightarrow> download mega' (Some l) = Inr bytes"
  shows "response (view_paste mega' (db_after (create_paste e mega rb now file req)) slug) =
           Render (str ''paste'')
             \<lparr>page_slug = slug, page_text = t,
              page_filename = Some (req_filename req slug),
              page_language = Some (req_language req), page_megaLink = Some l\<rparr>
       \<and> response (raw_paste mega' (db_after (create_paste e mega rb now file req)) slug) =
           Send 200 [(str ''Content-Type'', str ''text/plain; charset=utf-8'')] t"
proof -
  let ?r = "\<lparr>filename = req_filename req (hex rb), language = req_language req,
             megaLink = l, createdAt = now\<rparr>"
  from created have slug: "slug = hex rb"
    and stored: "store mega (req_filename req (hex rb)) (req_fileBuffer req) = Inr l"
    using created_iff by blast+
  from stored obtain f where
    up: "upload mega (req_filename req (hex rb)) (req_fileBuffer req) = Inr f"
    and lk: "link mega f = Inr l"
    by (auto simp add: store_def split: sum.splits)
  have served: "download mega' (Some l) = Inr (req_fileBuffer req)"
    using honest up lk by blast
  have db: "db_after (create_paste e mega rb now file req) slug = Some ?r"
    by (simp add: created_db [OF stored] slug)
  have bytes: "req_fileBuffer req = utf8_encode t"
    using content
    by (auto simp add: req_fileBuffer_def req_content_def nullish_or_def or_else_Some_Nil)
  have decoded: "utf8_decode (req_fileBuffer req) = t"
    by (simp add: bytes utf8_roundtrip [OF representable])
  have fetch': "download mega' (Some (megaLink ?r)) = Inr (req_fileBuffer req)"
    using served by simp
  show ?thesis
    using view_own [of "db_after (create_paste e mega rb now file req)" slug ?r mega',
                    OF db fetch']
      raw_own [of "db_after (create_paste e mega rb now file req)" slug ?r mega',
               OF db fetch']
    by (simp add: decoded slug)
qed

theorem create_then_view_roundtrip_witness:
  "response (view_paste honest_mega
      (db_after (create_paste example_env honest_mega example_randomBytes example_now
                   empty_db example_request)) example_slug) =
     Render (str ''paste'')
       \<lparr>page_slug = example_slug, page_text = str ''hello world'',
        page_filename = Some (str ''000102030405060708090a0b0c0d0eff.txt''),
        page_language = Some (str ''text''),
        page_megaLink = Some (str ''https://mega.nz/file/hello world'')\<rparr>
   \<and> response (raw_paste honest_mega
      (db_after (create_paste example_env honest_mega example_randomBytes example_now
                   empty_db example_request)) example_slug) =
     Send 200 [(str ''Content-Type'', str ''text/plain; charset=utf-8'')] (str ''hello world'')
   \<and> response (raw_paste honest_mega
      (db_after (create_paste example_env honest_mega example_randomBytes example_now
                   empty_db file_request)) example_slug) =
     Send 200 [(str ''Content-Type'', str ''text/plain; charset=utf-8'')] (str ''hello world'')"
proof -
  let ?l = "str ''https://mega.nz/file/hello world''"
  have honest: "\<forall>name bytes f. upload honest_mega name bytes = Inr f \<and> link honest_mega f = Inr ?l
                   \<longrightarrow> download honest_mega (Some ?l) = Inr bytes"
    using honest_mega_keeps by blast
  have 1: "response (create_paste example_env honest_mega example_randomBytes example_now
                       empty_db example_request)
             = Json 200 (Created example_slug (view_url example_env example_slug) ?l)"
    by (simp add: create_paste_text Let_def hex_example example_fileBuffer honest_mega_def
          hello_bytes_link)
  have 2: "file_buffer example_request = Some (utf8_encode (str ''hello world''))
         \<or> (file_buffer example_request = None
            \<and> body_content example_request = Some (str ''hello world''))"
    by (simp add: example_request_def)
  have 3: "response (create_paste example_env honest_mega example_randomBytes example_now
                       empty_db file_request)
             = Json 200 (Created example_slug (view_url example_env example_slug) ?l)"
    by (simp add: create_paste_text Let_def hex_example honest_mega_def req_fileBuffer_def
          file_request_def hello_bytes_link)
  have 4: "file_buffer file_request = Some (utf8_encode (str ''hello world''))
         \<or> (file_buffer file_request = None
            \<and> body_content file_request = Some (str ''hello world''))"
    by (simp add: file_request_def)
  show ?thesis
    using create_then_view_roundtrip [OF 1 2 hello_well_formed honest]
      create_then_view_roundtrip [OF 3 4 hello_well_formed honest]
    by (simp add: example_filename example_language)
qed

text \<open>
  C2. A slug that is absent from the record store is answered not-found by View and Raw,
  without a backend fetch. The handlers do not do this for the slug \<open>constructor\<close>: on the
  empty document, \<open>db[slug]\<close> is the inherited \<open>Object.prototype.constructor\<close>, the check
  \<open>!record\<close> does not fire, \<open>File.fromURL\<close> is called with \<open>undefined\<close>, and the
  handler redirects to \<open>undefined\<close>.
\<close>

theorem constructor_slug_redirects:
  "empty_db (str ''constructor'') = None
   \<and> view_paste example_mega empty_db (str ''constructor'') =
       \<lparr>response = Redirect None, db_after = empty_db, calls = [Download None]\<rparr>
   \<and> raw_paste example_mega empty_db (str ''constructor'') =
       \<lparr>response = Redirect None, db_after = empty_db, calls = [Download None]\<rparr>"
proof -
  have k: "str ''constructor'' \<in> set object_prototype_keys"
    by (simp add: object_prototype_keys_def)
  have l: "lookup empty_db (str ''constructor'') = Some Inherited"
    using k by (simp add: lookup_def empty_db_def)
  have d: "download example_mega None = Inl example_error"
    by (simp add: example_mega_def)
  show ?thesis
    by (simp add: view_paste_def raw_paste_def readDB_def Let_def l d) (simp add: empty_db_def)
qed

text \<open>
  C3. The stored filename. After a successful create, the record stored under the returned
  slug has as filename the trimmed filename of the request when that is not empty, and
  otherwise the slug, a dot, and \<open>txt\<close> when the stored language is \<open>text\<close>, the stored
  language itself when it is anything else. The stored language is \<open>text\<close> when the
  request has no language (or an empty one), the language of the request otherwise.
\<close>

theorem stored_filename:
  assumes created: "response (create_paste e mega rb now file req) = Json 200 (Created slug u l)"
  shows "\<exists>r. db_after (create_paste e mega rb now file req) slug = Some r
       \<and> filename r =
           (case body_filename req of
              None \<Rightarrow> slug @ str ''.'' @ (if language r = str ''text'' then str ''txt''
                                           else language r)
            | Some f \<Rightarrow>
                if trim f \<noteq> [] then trim f
                else slug @ str ''.'' @ (if language r = str ''text'' then str ''txt''
                                         else language r))
       \<and> language r =
           (case body_language req of
              None \<Rightarrow> str ''text''
            | Some g \<Rightarrow> if g = [] then str ''text'' else g)"
proof -
  let ?r = "\<lparr>filename = req_filename req (hex rb), language = req_language req,
             megaLink = l, createdAt = now\<rparr>"
  from created have slug: "slug = hex rb"
    and stored: "store mega (req_filename req (hex rb)) (req_fileBuffer req) = Inr l"
    using created_iff by blast+
  have db: "db_after (create_paste e mega rb now file req) slug = Some ?r"
    by (simp add: created_db [OF stored] slug)
  have lang: "language ?r =
                (case body_language req of
                   None \<Rightarrow> str ''text''
                 | Some g \<Rightarrow> if g = [] then str ''text'' else g)"
    by (simp add: req_language_def or_else_def)
  have name: "filename ?r =
           (case body_filename req of
              None \<Rightarrow> slug @ str ''.'' @ (if language ?r = str ''text'' then str ''txt''
                                           else language ?r)
            | Some f \<Rightarrow>
                if trim f \<noteq> [] then trim f
                else slug @ str ''.'' @ (if language ?r = str ''text'' then str ''txt''
                                         else language ?r))"
    by (auto simp add: req_filename_def req_filenameProvided_eq or_else_def slug
          split: option.splits)
  from db lang name show ?thesis by blast
qed

theorem stored_filename_witness:
  "\<exists>r. db_after (create_paste example_env example_mega example_randomBytes example_now
                    empty_db python_request) example_slug = Some r
     \<and> filename r = str ''000102030405060708090a0b0c0d0eff.python''
     \<and> language r = str ''python''"
proof -
  have 1: "response (create_paste example_env example_mega example_randomBytes example_now
                       empty_db python_request)
             = Json 200 (Created example_slug (view_url example_env example_slug) example_link)"
    by (simp add: create_paste_text Let_def hex_example example_mega_def)
  have t: "trim (str ''   '') = []"
    by (simp add: trim_def is_space_def str_def)
  have n: "str ''python'' \<noteq> str ''text''" "str ''python'' \<noteq> []"
    by (simp_all add: str_def)
  from stored_filename [OF 1] obtain r where
    db: "db_after (create_paste example_env example_mega example_randomBytes example_now
                     empty_db python_request) example_slug = Some r"
    and name: "filename r =
       (case body_filename python_request of
          None \<Rightarrow> example_slug @ str ''.'' @ (if language r = str ''text'' then str ''txt''
                                               else language r)
        | Some f \<Rightarrow>
            if trim f \<noteq> [] then trim f
            else example_slug @ str ''.'' @ (if language r = str ''text'' then str ''txt''
                                             else language r))"
    and lang: "language r =
       (case body_language python_request of
          None \<Rightarrow> str ''text''
        | Some g \<Rightarrow> if g = [] then str ''text'' else g)"
    by blast
  have l: "language r = str ''python''"
    using lang by (simp add: python_request_def n)
  have "filename r = example_slug @ str ''.'' @ str ''python''"
    using name by (simp add: python_request_def t l n)
  then have f: "filename r = str ''000102030405060708090a0b0c0d0eff.python''"
    by (simp add: example_slug_def str_def)
  from db f l show ?thesis by blast
qed

text \<open>
  C4. For a slug that is a key of the record store, when fetching the stored link fails,
  View and Raw both answer with a redirect to exactly that stored link.
\<close>

theorem fetch_failure_redirects:
  assumes "file slug = Some r" and "download mega (Some (megaLink r)) = Inl err"
  shows "response (view_paste mega file slug) = Redirect (Some (megaLink r))
       \<and> response (raw_paste mega file slug) = Redirect (Some (megaLink r))"
  using assms by (simp add: view_paste_def raw_paste_def readDB_def lookup_def Let_def)

theorem fetch_failure_redirects_witness:
  "response (view_paste offline_mega example_db example_slug) = Redirect (Some example_link)
   \<and> response (raw_paste offline_mega example_db example_slug) = Redirect (Some example_link)"
proof -
  have 2: "download offline_mega (Some (megaLink example_paste)) = Inl example_error"
    by (simp add: offline_mega_def)
  show ?thesis
    using fetch_failure_redirects [of example_db example_slug example_paste offline_mega
                                      example_error, OF example_db_slug 2]
    by (simp add: example_paste_link)
qed

text \<open>
  C5. When the upload fails, or the upload succeeds and the retrieval of the link fails,
  the create handler answers with status 500 and the error's text, and the record store is
  what it was: no record is written.
\<close>

theorem create_failure_writes_nothing:
  assumes "upload mega (req_filename req (hex rb)) (req_fileBuffer req) = Inl err
         \<or> (\<exists>f. upload mega (req_filename req (hex rb)) (req_fileBuffer req) = Inr f
                \<and> link mega f = Inl err)"
  shows "response (create_paste e mega rb now file req) = Json 500 (Failed (error_text err))
       \<and> db_after (create_paste e mega rb now file req) = file"
  using assms
  by (auto simp add: create_paste_text Let_def)

theorem create_failure_writes_nothing_witness:
  "response (create_paste example_env offline_mega other_randomBytes example_now example_db
               python_request)
     = Json 500 (Failed (str ''ENOTFOUND''))
   \<and> db_after (create_paste example_env offline_mega other_randomBytes example_now example_db
               python_request)
     = example_db"
proof -
  have 1: "upload offline_mega (req_filename python_request (hex other_randomBytes))
             (req_fileBuffer python_request) = Inl example_error
         \<or> (\<exists>f. upload offline_mega (req_filename python_request (hex other_randomBytes))
                  (req_fileBuffer python_request) = Inr f
                \<and> link offline_mega f = Inl example_error)"
    by (simp add: offline_mega_def)
  show ?thesis
    using create_failure_writes_nothing [OF 1] by (simp add: example_error_text)
qed

text \<open>
  C6, as amended. View and Raw leave every record of the store as it is, and so does Create
  for every slug other than the one it generates. (Create makes no check that its random
  slug is new: when it equals a key of the store, the old record is replaced, as the
  counterexample shows.)
\<close>

theorem slug_rebound_counterexample:
  "example_db example_slug = Some example_paste
   \<and> db_after (create_paste example_env example_mega example_randomBytes example_now
                 example_db python_request) example_slug \<noteq> Some example_paste"
proof -
  have "db_after (create_paste example_env example_mega example_randomBytes example_now
                 example_db python_request) example_slug
        = Some \<lparr>filename = str ''000102030405060708090a0b0c0d0eff.python'',
                language = str ''python'', megaLink = example_link, createdAt = example_now\<rparr>"
    by (simp add: created_db [OF example_store] hex_example python_filename python_language)
  moreover have "str ''python'' \<noteq> str ''text''"
    by (simp add: str_def)
  ultimately show ?thesis
    by (simp add: example_db_slug example_paste_def)
qed

theorem records_kept:
  assumes "file s = Some r"
  shows "db_after (view_paste mega file slug) s = Some r
       \<and> db_after (raw_paste mega file slug) s = Some r
       \<and> (s \<noteq> hex rb \<longrightarrow> db_after (create_paste e mega' rb now file req) s = Some r)"
  using assms by (simp add: view_keeps_db raw_keeps_db create_keeps_other_slugs)

theorem records_kept_witness:
  "db_after (view_paste example_mega example_db example_slug) example_slug = Some example_paste
   \<and> db_after (raw_paste example_mega example_db example_slug) example_slug = Some example_paste
   \<and> db_after (create_paste example_env example_mega other_randomBytes example_now example_db
                 python_request) example_slug = Some example_paste"
proof -
  have 2: "example_slug \<noteq> hex other_randomBytes"
    by (simp add: hex_other example_slug_def str_def)
  show ?thesis
    using records_kept [of example_db example_slug example_paste example_mega example_slug
                          other_randomBytes example_env example_mega example_now python_request,
                        OF example_db_slug] 2
    by simp
qed



text \<open>
  C8. The \<open>expire\<close> field has no effect. Two create requests that differ in \<open>expire\<close>
  only, with the same random bytes and time, have the same outcome: the same response, the
  same document with the same record, the same calls to the storage account. (The record
  has no expiry field, and the read handlers take neither a clock nor an \<open>expire\<close> value.)
\<close>

theorem expire_has_no_effect:
  "create_paste e mega rb now file (req\<lparr>body_expire := x\<rparr>)
     = create_paste e mega rb now file (req\<lparr>body_expire := y\<rparr>)"
  by (simp add: create_paste_text Let_def req_expire_update req_expire_update_derived)

theorem expire_has_no_effect_witness:
  "create_paste example_env example_mega example_randomBytes example_now empty_db
     (example_request\<lparr>body_expire := Some (str ''1h'')\<rparr>)
   = create_paste example_env example_mega example_randomBytes example_now empty_db
       example_request"
  using expire_has_no_effect [of example_env example_mega example_randomBytes example_now
                                empty_db "Some (str ''1h'')" example_request None]
  by (simp add: example_request_def)

text \<open>
  C9. View and Raw do not write. The document after View or Raw is the document before, and
  a second View (or Raw) of the same slug, on a storage account that answers downloads as
  before, gives the same response as the first.
\<close>

theorem reads_do_not_write:
  assumes "download mega' = download mega"
  shows "db_after (view_paste mega file slug) = file
       \<and> db_after (raw_paste mega file slug) = file
       \<and> response (view_paste mega' (db_after (view_paste mega file slug)) slug)
           = response (view_paste mega file slug)
       \<and> response (raw_paste mega' (db_after (raw_paste mega file slug)) slug)
           = response (raw_paste mega file slug)"
proof -
  have v: "response (view_paste mega' file slug) = response (view_paste mega file slug)"
    by (simp add: view_paste_def Let_def assms split: option.splits sum.splits)
  have r: "response (raw_paste mega' file slug) = response (raw_paste mega file slug)"
    by (simp add: raw_paste_def Let_def assms split: option.splits sum.splits)
  show ?thesis
    by (simp add: view_keeps_db raw_keeps_db v r)
qed

theorem reads_do_not_write_witness:
  "db_after (view_paste example_mega example_db example_slug) = example_db
   \<and> db_after (raw_paste example_mega example_db example_slug) = example_db
   \<and> response (view_paste example_mega
        (db_after (view_paste example_mega example_db example_slug)) example_slug)
       = response (view_paste example_mega example_db example_slug)
   \<and> response (raw_paste example_mega
        (db_after (raw_paste example_mega example_db example_slug)) example_slug)
       = response (raw_paste example_mega example_db example_slug)"
proof -
  have 1: "download example_mega = download example_mega"
    by simp
  show ?thesis
    using reads_do_not_write [OF 1, of example_db example_slug] by simp
qed




end
